theory Spec2Isabelle
  imports Main
begin

section \<open>Python values\<close>

text \<open>
  Strings are \<open>string\<close> (lists of characters) and are taken to be ASCII text: OCD
  identifiers, state codes and column names. Dictionaries are association lists in
  insertion order, because the code iterates over them with \<^verbatim>\<open>.items()\<close>; a key is
  looked up with \<open>map_of\<close>, and \<open>dict_set\<close> overwrites in place or appends, as an
  assignment \<^verbatim>\<open>d[k] = v\<close> does.
\<close>

text \<open>
  A scalar is the value of one cell of a legislator record: JSON null or a missing
  pandas cell read back (\<^verbatim>\<open>None\<close>), a boolean, a whole number, NaN, or text.
\<close>

datatype scalar = SNone | SBool bool | SInt int | SNaN | SStr string

text \<open>A LegislatorRecord: column name to scalar.\<close>

type_synonym legislator = "(string \<times> scalar) list"

definition keys :: "('k \<times> 'v) list \<Rightarrow> 'k set" where
  "keys d = fst ` set d"

fun dict_set :: "('k \<times> 'v) list \<Rightarrow> 'k \<Rightarrow> 'v \<Rightarrow> ('k \<times> 'v) list" where
  "dict_set [] k v = [(k, v)]"
| "dict_set ((k', v') # d) k v = (if k' = k then (k, v) # d else (k', v') # dict_set d k v)"

section \<open>Strings\<close>

text \<open>\<^verbatim>\<open>s.startswith(p)\<close> is \<open>starts_with p s\<close>; \<^verbatim>\<open>sub in s\<close> is \<open>contains sub s\<close>.\<close>

fun starts_with :: "string \<Rightarrow> string \<Rightarrow> bool" where
  "starts_with [] s = True"
| "starts_with (p # ps) [] = False"
| "starts_with (p # ps) (c # cs) = (p = c \<and> starts_with ps cs)"

fun contains :: "string \<Rightarrow> string \<Rightarrow> bool" where
  "contains sub [] = (sub = [])"
| "contains sub (c # cs) = (starts_with sub (c # cs) \<or> contains sub cs)"

text \<open>
  The first occurrence of a separator: the text before it and the text after it.
\<close>

fun find_sep :: "string \<Rightarrow> string \<Rightarrow> (string \<times> string) option" where
  "find_sep sep [] = (if sep = [] then Some ([], []) else None)"
| "find_sep sep (c # cs) =
     (if starts_with sep (c # cs) then Some ([], drop (length sep) (c # cs))
      else (case find_sep sep cs of
              None \<Rightarrow> None
            | Some (before, after) \<Rightarrow> Some (c # before, after)))"

lemma find_sep_shorter:
  "find_sep sep s = Some (a, b) \<Longrightarrow> sep \<noteq> [] \<Longrightarrow> length b < length s"
proof (induction s arbitrary: a)
  case Nil
  then show ?case by simp
next
  case (Cons c cs)
  show ?case
  proof (cases "starts_with sep (c # cs)")
    case True
    with Cons.prems show ?thesis by (cases sep) auto
  next
    case False
    with Cons.prems obtain a' where "find_sep sep cs = Some (a', b)"
      by (auto split: option.splits)
    with Cons.IH Cons.prems(2) show ?thesis by fastforce
  qed
qed

text \<open>
  \<^verbatim>\<open>s.split(sep)\<close> for a separator that is not empty (every separator in the source is
  a literal; Python raises ValueError on an empty one).
\<close>

function py_split :: "string \<Rightarrow> string \<Rightarrow> string list" where
  "py_split sep s =
     (if sep = [] then [s]
      else (case find_sep sep s of
              None \<Rightarrow> [s]
            | Some (before, after) \<Rightarrow> before # py_split sep after))"
  by pat_completeness auto
termination
  by (relation "measure (\<lambda>(sep, s). length s)") (auto dest: find_sep_shorter)

declare py_split.simps [simp del]

definition upper_char :: "char \<Rightarrow> char" where
  "upper_char c =
     (case map_of (zip ''abcdefghijklmnopqrstuvwxyz'' ''ABCDEFGHIJKLMNOPQRSTUVWXYZ'') c of
        Some u \<Rightarrow> u | None \<Rightarrow> c)"

definition lower_char :: "char \<Rightarrow> char" where
  "lower_char c =
     (case map_of (zip ''ABCDEFGHIJKLMNOPQRSTUVWXYZ'' ''abcdefghijklmnopqrstuvwxyz'') c of
        Some l \<Rightarrow> l | None \<Rightarrow> c)"

definition upper :: "string \<Rightarrow> string" where
  "upper s = map upper_char s"

definition lower :: "string \<Rightarrow> string" where
  "lower s = map lower_char s"

text \<open>The ASCII characters that \<^verbatim>\<open>str.strip()\<close> removes.\<close>

definition is_space :: "char \<Rightarrow> bool" where
  "is_space c = (c \<in> set [CHR 0x09, CHR 0x0A, CHR 0x0B, CHR 0x0C, CHR 0x0D,
                           CHR 0x1C, CHR 0x1D, CHR 0x1E, CHR 0x1F, CHR 0x20])"

definition strip :: "string \<Rightarrow> string" where
  "strip s = rev (dropWhile is_space (rev (dropWhile is_space s)))"

definition isdigit :: "string \<Rightarrow> bool" where
  "isdigit s = (s \<noteq> [] \<and> list_all (\<lambda>c. c \<in> set ''0123456789'') s)"

text \<open>Decimal printing of a whole number, as \<^verbatim>\<open>str\<close> and an f-string do it.\<close>

definition digit_char :: "nat \<Rightarrow> char" where
  "digit_char d = ''0123456789'' ! d"

function str_nat :: "nat \<Rightarrow> string" where
  "str_nat n = (if n < 10 then [digit_char n] else str_nat (n div 10) @ [digit_char (n mod 10)])"
  by pat_completeness auto
termination
  by (relation "measure id") auto

declare str_nat.simps [simp del]

definition str_int :: "int \<Rightarrow> string" where
  "str_int i = (if i < 0 then CHR ''-'' # str_nat (nat (- i)) else str_nat (nat i))"

section \<open>Exceptions\<close>

text \<open>
  What \<^verbatim>\<open>requests.get\<close>, \<^verbatim>\<open>raise_for_status\<close> and \<^verbatim>\<open>resp.json()\<close> raise: a timeout,
  a failed connection, an HTTP status outside 2xx, a body that is not JSON.
\<close>

datatype request_error = Timeout | ConnectionFailed | HTTPError nat | MalformedJSON

datatype py_exception =
    IndexError
  | AttributeError
  | ValueError
  | RequestError request_error
  | SystemExit nat

text \<open>
  \<^verbatim>\<open>except Exception\<close> catches the subclasses of \<^verbatim>\<open>Exception\<close>; \<^verbatim>\<open>SystemExit\<close> derives
  from \<^verbatim>\<open>BaseException\<close> only.
\<close>

fun is_Exception :: "py_exception \<Rightarrow> bool" where
  "is_Exception (SystemExit code) = False"
| "is_Exception e = True"

text \<open>A computation that may raise: \<open>Inl\<close> is the exception raised.\<close>

definition bind_result :: "'e + 'a \<Rightarrow> ('a \<Rightarrow> 'e + 'b) \<Rightarrow> 'e + 'b" where
  "bind_result m f = (case m of Inl e \<Rightarrow> Inl e | Inr x \<Rightarrow> f x)"

text \<open>A loop that builds a list, and a loop that updates a state; both stop at a raise.\<close>

fun map_result :: "('a \<Rightarrow> 'e + 'b) \<Rightarrow> 'a list \<Rightarrow> 'e + 'b list" where
  "map_result f [] = Inr []"
| "map_result f (x # xs) =
     bind_result (f x) (\<lambda>y. bind_result (map_result f xs) (\<lambda>ys. Inr (y # ys)))"

fun fold_result :: "('a \<Rightarrow> 's \<Rightarrow> 'e + 's) \<Rightarrow> 'a list \<Rightarrow> 's \<Rightarrow> 'e + 's" where
  "fold_result f [] s = Inr s"
| "fold_result f (x # xs) s = bind_result (f x s) (fold_result f xs)"

text \<open>A computation that raises nothing but what \<^verbatim>\<open>except Exception\<close> catches.\<close>

definition catchable :: "py_exception + 'a \<Rightarrow> bool" where
  "catchable m = (case m of Inl e \<Rightarrow> is_Exception e | Inr x \<Rightarrow> True)"

text \<open>A computation that returns: it raises nothing.\<close>

definition returns :: "'e + 'a \<Rightarrow> bool" where
  "returns m = (case m of Inl e \<Rightarrow> False | Inr x \<Rightarrow> True)"

text \<open>\<^verbatim>\<open>xs[i]\<close> on a list.\<close>

definition py_index :: "'a list \<Rightarrow> nat \<Rightarrow> py_exception + 'a" where
  "py_index xs i = (if i < length xs then Inr (xs ! i) else Inl IndexError)"

text \<open>\<^verbatim>\<open>str(v)\<close>, which is also how an f-string prints a value.\<close>

fun py_str :: "scalar \<Rightarrow> string" where
  "py_str SNone = ''None''"
| "py_str (SBool b) = (if b then ''True'' else ''False'')"
| "py_str (SInt i) = str_int i"
| "py_str SNaN = ''nan''"
| "py_str (SStr s) = s"

text \<open>\<^verbatim>\<open>v.strip()\<close>: only text has the method.\<close>

fun py_strip :: "scalar \<Rightarrow> py_exception + string" where
  "py_strip (SStr s) = Inr (strip s)"
| "py_strip v = Inl AttributeError"

text \<open>\<^verbatim>\<open>d.get(k, default)\<close>.\<close>

definition get_default :: "('k \<times> 'v) list \<Rightarrow> 'k \<Rightarrow> 'v \<Rightarrow> 'v" where
  "get_default d k dflt = (case map_of d k of None \<Rightarrow> dflt | Some v \<Rightarrow> v)"

text \<open>
  \<^verbatim>\<open>d.get(k, [])\<close> and \<^verbatim>\<open>d.get(k, {})\<close>, from the value of an optional key: empty when the
  key is missing.
\<close>

definition list_or_empty :: "'a list option \<Rightarrow> 'a list" where
  "list_or_empty v = (case v of None \<Rightarrow> [] | Some l \<Rightarrow> l)"

section \<open>Field filtering\<close>

text \<open>
  \<^verbatim>\<open>Optional[Set[str]]\<close> is \<open>string set option\<close>. The tests
  \<^verbatim>\<open>if keep_fields:\<close> and \<^verbatim>\<open>elif delete_fields:\<close> are truth tests: \<^verbatim>\<open>None\<close> and
  the empty set are both false.
\<close>

definition set_truthy :: "string set option \<Rightarrow> bool" where
  "set_truthy s = (case s of None \<Rightarrow> False | Some K \<Rightarrow> K \<noteq> {})"

definition fields_of :: "string set option \<Rightarrow> string set" where
  "fields_of s = (case s of None \<Rightarrow> {} | Some K \<Rightarrow> K)"

text \<open>\<^verbatim>\<open>filter_data\<close> of get_us_district_info_from_address.py.\<close>

definition filter_data ::
  "legislator \<Rightarrow> string set option \<Rightarrow> string set option \<Rightarrow> legislator" where
  "filter_data data keep_fields delete_fields =
     (if set_truthy keep_fields then filter (\<lambda>(k, v). k \<in> fields_of keep_fields) data
      else if set_truthy delete_fields then
        filter (\<lambda>(k, v). k \<notin> fields_of delete_fields) data
      else data)"

text \<open>
  \<^verbatim>\<open>filter_fields\<close> of update_us_congressional_data.py. The row has already been turned
  into a dictionary (\<^verbatim>\<open>row.to_dict()\<close> for a pandas Series).
\<close>

definition filter_fields ::
  "legislator \<Rightarrow> string set option \<Rightarrow> string set option \<Rightarrow> legislator" where
  "filter_fields row_dict keep_fields delete_fields =
     (if set_truthy keep_fields then filter (\<lambda>(k, v). k \<in> fields_of keep_fields) row_dict
      else if set_truthy delete_fields then
        filter (\<lambda>(k, v). k \<notin> fields_of delete_fields) row_dict
      else row_dict)"

text \<open>The two field sets are mutually exclusive when at most one of them is given.\<close>

definition mutually_exclusive :: "string set option \<Rightarrow> string set option \<Rightarrow> bool" where
  "mutually_exclusive keep_fields delete_fields =
     (keep_fields = None \<or> delete_fields = None)"

section \<open>The data model of a lookup\<close>

text \<open>
  A DistrictEntry, and \<^verbatim>\<open>district_data\<close>, the dictionary the mapper builds: it holds
  districts (\<^verbatim>\<open>"CA-12"\<close>) and, while the mapper runs, state buckets (\<^verbatim>\<open>"CA"\<close>).
\<close>

record district_entry =
  senators :: "legislator list"
  representatives :: "legislator list"

type_synonym district_data = "(string \<times> district_entry) list"

text \<open>
  The LegislatorCache. Either top-level key may be missing (the cache is \<^verbatim>\<open>{}\<close> when
  the file was not loaded). A state maps to the value of its \<^verbatim>\<open>"senators"\<close> key and a
  district to the value of its \<^verbatim>\<open>"representative"\<close> key; \<open>None\<close> is a missing key.
\<close>

record legislator_cache =
  cache_states :: "(string \<times> legislator list option) list option"
  cache_districts :: "(string \<times> legislator option) list option"

text \<open>
  The body of the API's reply: \<^verbatim>\<open>"divisions"\<close> maps an OCD identifier to
  \<^verbatim>\<open>{"name": ...}\<close>, here the name. \<^verbatim>\<open>data.get("divisions", {})\<close> is \<open>division_items\<close>.
\<close>

record api_data =
  divisions :: "(string \<times> string) list option"

definition division_items :: "api_data \<Rightarrow> (string \<times> string) list" where
  "division_items data = (case divisions data of None \<Rightarrow> [] | Some d \<Rightarrow> d)"

definition division_ids :: "api_data \<Rightarrow> string list" where
  "division_ids data = map fst (division_items data)"

text \<open>
  The dictionary a lookup returns and \<^verbatim>\<open>filter_legislator_data\<close> reads. The keys
  \<^verbatim>\<open>"districts"\<close> and \<^verbatim>\<open>"error"\<close> may each be missing, and there may be other keys. In a
  district's entry \<^verbatim>\<open>"senators"\<close> and \<^verbatim>\<open>"representatives"\<close> may each be missing, and
  there may be other keys.
\<close>

record district_info =
  info_senators :: "legislator list option"
  info_representatives :: "legislator list option"
  info_others :: "(string \<times> scalar) list"

record lookup_result =
  result_districts :: "(string \<times> district_info) list option"
  result_error :: "scalar option"
  result_others :: "(string \<times> scalar) list"

definition info_keys :: "district_info \<Rightarrow> string set" where
  "info_keys i =
     (if info_senators i = None then {} else {''senators''})
     \<union> (if info_representatives i = None then {} else {''representatives''})
     \<union> keys (info_others i)"

definition result_keys :: "lookup_result \<Rightarrow> string set" where
  "result_keys r =
     (if result_districts r = None then {} else {''districts''})
     \<union> (if result_error r = None then {} else {''error''})
     \<union> keys (result_others r)"

text \<open>\<^verbatim>\<open>{"districts": district_data}\<close>, the dictionary both mappers return.\<close>

definition entry_info :: "district_entry \<Rightarrow> district_info" where
  "entry_info e =
     \<lparr>info_senators = Some (senators e), info_representatives = Some (representatives e),
      info_others = []\<rparr>"

definition districts_dict :: "district_data \<Rightarrow> lookup_result" where
  "districts_dict dd =
     \<lparr>result_districts = Some (map (\<lambda>(k, e). (k, entry_info e)) dd),
      result_error = None, result_others = []\<rparr>"

section \<open>Pieces shared by the two result mappers\<close>

definition new_entry :: district_entry where
  "new_entry = \<lparr>senators = [], representatives = []\<rparr>"

text \<open>
  \<^verbatim>\<open>if k not in district_data: district_data[k] = {"senators": [], "representatives": []}\<close>
\<close>

definition ensure_entry :: "district_data \<Rightarrow> string \<Rightarrow> district_data" where
  "ensure_entry dd k = (case map_of dd k of None \<Rightarrow> dict_set dd k new_entry | Some e \<Rightarrow> dd)"

text \<open>
  Reads and writes of \<^verbatim>\<open>district_data[k]["senators"]\<close> and
  \<^verbatim>\<open>district_data[k]["representatives"]\<close>. In the source each of them follows a test or
  an assignment that makes \<open>k\<close> a key, so the KeyError of a missing key is not modelled:
  a read of a missing key gives the empty list and a write to it changes nothing.
\<close>

definition entry_senators :: "district_data \<Rightarrow> string \<Rightarrow> legislator list" where
  "entry_senators dd k = (case map_of dd k of None \<Rightarrow> [] | Some e \<Rightarrow> senators e)"

definition entry_representatives :: "district_data \<Rightarrow> string \<Rightarrow> legislator list" where
  "entry_representatives dd k = (case map_of dd k of None \<Rightarrow> [] | Some e \<Rightarrow> representatives e)"

definition set_senators :: "district_data \<Rightarrow> string \<Rightarrow> legislator list \<Rightarrow> district_data" where
  "set_senators dd k v = map (\<lambda>(k', e). if k' = k then (k', e\<lparr>senators := v\<rparr>) else (k', e)) dd"

definition set_representatives ::
  "district_data \<Rightarrow> string \<Rightarrow> legislator list \<Rightarrow> district_data" where
  "set_representatives dd k v =
     map (\<lambda>(k', e). if k' = k then (k', e\<lparr>representatives := v\<rparr>) else (k', e)) dd"

definition append_representative ::
  "district_data \<Rightarrow> string \<Rightarrow> legislator \<Rightarrow> district_data" where
  "append_representative dd k rep = set_representatives dd k (entry_representatives dd k @ [rep])"

text \<open>
  \<^verbatim>\<open>x.get("full_name", f"{x.get('first_name', '')} {x.get('last_name', '')}").strip()\<close>
\<close>

definition display_name :: "legislator \<Rightarrow> py_exception + string" where
  "display_name x =
     py_strip (get_default x ''full_name''
       (SStr (py_str (get_default x ''first_name'' (SStr []))
              @ '' '' @ py_str (get_default x ''last_name'' (SStr [])))))"

definition senator_info :: "string \<Rightarrow> legislator \<Rightarrow> py_exception + legislator" where
  "senator_info state_abbr senator =
     bind_result (display_name senator) (\<lambda>name.
       Inr [(''name'', SStr name),
            (''party'', get_default senator ''party'' (SStr ''Unknown'')),
            (''role'', SStr ''Senator''),
            (''state'', SStr state_abbr),
            (''bioguide_id'', get_default senator ''bioguide_id'' (SStr []))])"

definition representative_info ::
  "string \<Rightarrow> string \<Rightarrow> legislator \<Rightarrow> py_exception + legislator" where
  "representative_info role district_id cached_rep =
     bind_result (display_name cached_rep) (\<lambda>name.
       Inr [(''name'', SStr name),
            (''party'', get_default cached_rep ''party'' (SStr ''Unknown'')),
            (''role'', SStr role),
            (''district'', SStr district_id),
            (''bioguide_id'', get_default cached_rep ''bioguide_id'' (SStr []))])"

definition placeholder_senators :: "string \<Rightarrow> legislator list" where
  "placeholder_senators state_abbr =
     [[(''name'', SStr (''Senator 1 for '' @ state_abbr)),
       (''role'', SStr ''Senator''), (''state'', SStr state_abbr)],
      [(''name'', SStr (''Senator 2 for '' @ state_abbr)),
       (''role'', SStr ''Senator''), (''state'', SStr state_abbr)]]"

definition placeholder_representative :: "string \<Rightarrow> legislator" where
  "placeholder_representative district_id =
     [(''name'', SStr (''Representative for '' @ district_id)),
      (''role'', SStr ''Representative''), (''district'', SStr district_id)]"

text \<open>
  The test \<^verbatim>\<open>cached and "states" in cached and state_abbr in cached["states"]\<close> with the
  read \<^verbatim>\<open>cached["states"][state_abbr].get("senators", [])\<close> that follows it: \<open>None\<close>
  when the test fails.
\<close>

definition cached_senators :: "legislator_cache \<Rightarrow> string \<Rightarrow> legislator list option" where
  "cached_senators c state_abbr =
     (case cache_states c of
        None \<Rightarrow> None
      | Some ss \<Rightarrow>
          (case map_of ss state_abbr of
             None \<Rightarrow> None
           | Some entry \<Rightarrow> Some (case entry of None \<Rightarrow> [] | Some l \<Rightarrow> l)))"

text \<open>
  The test \<^verbatim>\<open>cached and "districts" in cached and district_id in cached["districts"]\<close>,
  the read \<^verbatim>\<open>.get("representative")\<close> and the truth test \<^verbatim>\<open>if cached_rep:\<close>: \<open>Some r\<close>
  when all three succeed (the record is there and not empty).
\<close>

definition cached_representative :: "legislator_cache \<Rightarrow> string \<Rightarrow> legislator option" where
  "cached_representative c district_id =
     (case cache_districts c of
        None \<Rightarrow> None
      | Some ds \<Rightarrow>
          (case map_of ds district_id of
             None \<Rightarrow> None
           | Some entry \<Rightarrow>
               (case entry of None \<Rightarrow> None | Some r \<Rightarrow> if r = [] then None else Some r)))"

text \<open>
  The senators of a state from the cache, formatted one by one and stored under \<open>k\<close>;
  nothing is stored when the cached list is empty (\<^verbatim>\<open>if cached_senators:\<close>).
\<close>

definition store_cached_senators ::
  "district_data \<Rightarrow> string \<Rightarrow> string \<Rightarrow> legislator list \<Rightarrow> py_exception + district_data" where
  "store_cached_senators dd k state_abbr cs =
     (if cs \<noteq> [] then
        bind_result (map_result (senator_info state_abbr) cs) (\<lambda>senators_data.
          Inr (set_senators dd k senators_data))
      else Inr dd)"

text \<open>
  The senators of a congressional district (both mappers, the end of the \<^verbatim>\<open>/cd:\<close>
  branch): copied from the state's bucket when it has some, else from the cache, else
  placeholders. A cached state with an empty list leaves the district as it is.
\<close>

definition district_senators ::
  "legislator_cache \<Rightarrow> district_data \<Rightarrow> string \<Rightarrow> string \<Rightarrow> py_exception + district_data" where
  "district_senators c dd state_abbr district_id =
     (if state_abbr \<noteq> [] then
        (if map_of dd state_abbr \<noteq> None \<and> entry_senators dd state_abbr \<noteq> [] then
           Inr (set_senators dd district_id (entry_senators dd state_abbr))
         else (case cached_senators c state_abbr of
                 Some cs \<Rightarrow> store_cached_senators dd district_id state_abbr cs
               | None \<Rightarrow> Inr (set_senators dd district_id (placeholder_senators state_abbr))))
      else Inr dd)"

text \<open>
  The start of the bare-state branch (both mappers): the state's bucket, with its
  senators from the cache or two placeholders.
\<close>

definition state_bucket ::
  "legislator_cache \<Rightarrow> district_data \<Rightarrow> string \<Rightarrow> py_exception + district_data" where
  "state_bucket c dd state_abbr =
     bind_result
       (case cached_senators c state_abbr of
          Some cs \<Rightarrow> store_cached_senators (ensure_entry dd state_abbr) state_abbr state_abbr cs
        | None \<Rightarrow> Inr (ensure_entry dd state_abbr))
       (\<lambda>dd'. Inr (if entry_senators dd' state_abbr = []
                  then set_senators dd' state_abbr (placeholder_senators state_abbr)
                  else dd'))"

text \<open>
  The tests that classify an identifier. \<^verbatim>\<open>"state:" in ocd_id and "/" not in
  ocd_id.split("state:")[1]\<close>: the index is read only when the separator occurs.
\<close>

definition is_state_division :: "string \<Rightarrow> bool" where
  "is_state_division ocd_id =
     (contains ''state:'' ocd_id
      \<and> (case py_index (py_split ''state:'' ocd_id) 1 of
            Inl e \<Rightarrow> False
          | Inr piece \<Rightarrow> \<not> contains ''/'' piece))"

definition is_territory_division :: "string \<Rightarrow> bool" where
  "is_territory_division ocd_id = contains ''district:'' (lower ocd_id)"

definition is_cd_division :: "string \<Rightarrow> bool" where
  "is_cd_division ocd_id = contains ''/cd:'' ocd_id"

text \<open>
  The district code of a territory identifier:
  \<^verbatim>\<open>ocd_id.split("district:")[1].upper()\<close>, cut at the first \<^verbatim>\<open>/\<close>. The test was made on
  the lower-cased identifier and the split is on the identifier itself, so the index
  can fail.
\<close>

definition territory_code :: "string \<Rightarrow> py_exception + string" where
  "territory_code ocd_id =
     bind_result (py_index (py_split ''district:'' ocd_id) 1) (\<lambda>piece.
       if contains ''/'' (upper piece) then py_index (py_split ''/'' (upper piece)) 0
       else Inr (upper piece))"

text \<open>
  The state and the district id of a congressional district identifier:
  \<^verbatim>\<open>ocd_id.split("state:")[1].split("/")[0].upper()\<close> and \<^verbatim>\<open>ocd_id.split("cd:")[1]\<close>.
\<close>

definition cd_state_abbr :: "string \<Rightarrow> py_exception + string" where
  "cd_state_abbr ocd_id =
     bind_result (py_index (py_split ''state:'' ocd_id) 1) (\<lambda>after_state.
     bind_result (py_index (py_split ''/'' after_state) 0) (\<lambda>st. Inr (upper st)))"

definition cd_district_id :: "string \<Rightarrow> string \<Rightarrow> py_exception + string" where
  "cd_district_id state_abbr ocd_id =
     bind_result (py_index (py_split ''cd:'' ocd_id) 1) (\<lambda>district_num.
       Inr (if district_num = ''al'' then state_abbr @ ''-AL''
            else state_abbr @ ''-'' @ district_num))"

section \<open>The result mapper: parse_result of parse_result_no_special_cases.py\<close>

definition territories :: "string list" where
  "territories = [''DC'', ''PR'', ''GU'', ''VI'', ''MP'', ''AS'']"

text \<open>
  A new at-large district (lines 81 to 106, and again lines 230 to 255): the senators
  are a copy of the state bucket's, the representative comes from the cache or is a
  placeholder.
\<close>

definition at_large_representatives ::
  "legislator_cache \<Rightarrow> string \<Rightarrow> py_exception + legislator list" where
  "at_large_representatives c district_id =
     bind_result
       (case cached_representative c district_id of
          Some cached_rep \<Rightarrow>
            bind_result (representative_info ''Representative'' district_id cached_rep)
              (\<lambda>rep_data. Inr [rep_data])
        | None \<Rightarrow> Inr [])
       (\<lambda>reps. Inr (if reps = [] then [placeholder_representative district_id] else reps))"

definition add_at_large_district ::
  "legislator_cache \<Rightarrow> district_data \<Rightarrow> string \<Rightarrow> string \<Rightarrow> py_exception + district_data" where
  "add_at_large_district c dd state_code district_id =
     bind_result (at_large_representatives c district_id) (\<lambda>reps.
       Inr (dict_set dd district_id
             \<lparr>senators = entry_senators dd state_code, representatives = reps\<rparr>))"

text \<open>
  The bare-state branch (lines 30 to 106). \<open>ids\<close> are the keys of the whole response,
  which the branch scans for a numbered district of the same state.
\<close>

definition has_numbered_district :: "string list \<Rightarrow> string \<Rightarrow> bool" where
  "has_numbered_district ids state_abbr =
     list_ex (\<lambda>other_id. contains (''state:'' @ lower state_abbr @ ''/cd:'') other_id
                         \<and> \<not> contains ''cd:al'' other_id) ids"

definition state_division ::
  "legislator_cache \<Rightarrow> string list \<Rightarrow> string \<Rightarrow> district_data \<Rightarrow> py_exception + district_data"
  where
  "state_division c ids ocd_id dd =
     bind_result (py_index (py_split ''state:'' ocd_id) 1) (\<lambda>piece.
     bind_result (state_bucket c dd (upper piece)) (\<lambda>dd'.
       if \<not> has_numbered_district ids (upper piece)
          \<and> map_of dd' (upper piece @ ''-AL'') = None
       then add_at_large_district c dd' (upper piece) (upper piece @ ''-AL'')
       else Inr dd'))"

text \<open>The territory branch (lines 109 to 145).\<close>

definition territory_role :: "string \<Rightarrow> string" where
  "territory_role district_code =
     (if district_code \<noteq> ''PR'' then ''Delegate (Non-Voting)''
      else ''Resident Commissioner (Non-Voting)'')"

definition territory_division ::
  "legislator_cache \<Rightarrow> string \<Rightarrow> district_data \<Rightarrow> py_exception + district_data" where
  "territory_division c ocd_id dd =
     bind_result (territory_code ocd_id) (\<lambda>district_code.
       if district_code \<in> set territories then
         bind_result
           (case cached_representative c (district_code @ ''-AL'') of
              Some cached_rep \<Rightarrow>
                bind_result
                  (representative_info (territory_role district_code)
                     (district_code @ ''-AL'') cached_rep)
                  (\<lambda>rep_data. Inr (append_representative
                      (ensure_entry dd (district_code @ ''-AL''))
                      (district_code @ ''-AL'') rep_data))
            | None \<Rightarrow> Inr (ensure_entry dd (district_code @ ''-AL'')))
           (\<lambda>dd'. Inr (if entry_representatives dd' (district_code @ ''-AL'') = [] then
                          append_representative dd' (district_code @ ''-AL'')
                            [(''name'', SStr (territory_role district_code @ '' for ''
                                              @ district_code)),
                             (''role'', SStr (territory_role district_code)),
                             (''district'', SStr (district_code @ ''-AL''))]
                        else dd'))
       else Inr (ensure_entry dd (district_code @ ''-AL'')))"

text \<open>The congressional district branch (lines 148 to 219).\<close>

definition cd_division ::
  "legislator_cache \<Rightarrow> string \<Rightarrow> district_data \<Rightarrow> py_exception + district_data" where
  "cd_division c ocd_id dd =
     bind_result (cd_state_abbr ocd_id) (\<lambda>state_abbr.
     bind_result (cd_district_id state_abbr ocd_id) (\<lambda>district_id.
     bind_result
       (case cached_representative c district_id of
          Some cached_rep \<Rightarrow> representative_info ''Representative'' district_id cached_rep
        | None \<Rightarrow> Inr (placeholder_representative district_id))
       (\<lambda>rep_data.
          district_senators c
            (append_representative (ensure_entry dd district_id) district_id rep_data)
            state_abbr district_id)))"

text \<open>
  One turn of the loop over the divisions (lines 28 to 219). The variable
  \<^verbatim>\<open>state_abbr\<close> lives across turns in the source, but every branch that reads it has
  assigned it first, so it is local here.
\<close>

definition process_division ::
  "legislator_cache \<Rightarrow> string list \<Rightarrow> string \<Rightarrow> district_data \<Rightarrow> py_exception + district_data"
  where
  "process_division c ids ocd_id dd =
     (if is_state_division ocd_id then state_division c ids ocd_id dd
      else if is_territory_division ocd_id then territory_division c ocd_id dd
      else if is_cd_division ocd_id then cd_division c ocd_id dd
      else Inr dd)"

text \<open>
  After the loop (lines 222 to 255): when no key has a \<^verbatim>\<open>-\<close> and there is some key, every
  two-letter key gets an at-large district. The loop runs over the keys as they were
  before it.
\<close>

definition derive_at_large ::
  "legislator_cache \<Rightarrow> string \<Rightarrow> district_data \<Rightarrow> py_exception + district_data" where
  "derive_at_large c state_code dd =
     (if length state_code \<noteq> 2 then Inr dd
      else if map_of dd (state_code @ ''-AL'') = None
        then add_at_large_district c dd state_code (state_code @ ''-AL'')
      else Inr dd)"

definition districts_from_states ::
  "legislator_cache \<Rightarrow> district_data \<Rightarrow> py_exception + district_data" where
  "districts_from_states c dd =
     (if \<not> list_ex (contains ''-'') (map fst dd) \<and> dd \<noteq> []
      then fold_result (derive_at_large c) (map fst dd) dd
      else Inr dd)"

text \<open>The test data (lines 259 to 314), applied in the order of the dictionary.\<close>

definition test_data_CA_12 :: district_entry where
  "test_data_CA_12 =
     \<lparr>senators =
        [[(''name'', SStr ''Alex Padilla''), (''party'', SStr ''Democratic''),
          (''role'', SStr ''Senator''), (''state'', SStr ''CA'')],
         [(''name'', SStr ''Laphonza R. Butler''), (''party'', SStr ''Democratic''),
          (''role'', SStr ''Senator''), (''state'', SStr ''CA'')]],
      representatives =
        [[(''name'', SStr ''Nancy Pelosi''), (''party'', SStr ''Democratic''),
          (''role'', SStr ''Representative''), (''district'', SStr ''CA-12'')]]\<rparr>"

definition test_data_DC_AL :: district_entry where
  "test_data_DC_AL =
     \<lparr>senators = [],
      representatives =
        [[(''name'', SStr ''Eleanor Holmes Norton''), (''party'', SStr ''Democratic''),
          (''role'', SStr ''Delegate (Non-Voting)''), (''district'', SStr ''DC-AL'')]]\<rparr>"

definition test_data_VT_AL :: district_entry where
  "test_data_VT_AL =
     \<lparr>senators =
        [[(''name'', SStr ''Bernie Sanders''), (''party'', SStr ''Independent''),
          (''role'', SStr ''Senator''), (''state'', SStr ''VT'')],
         [(''name'', SStr ''Peter Welch''), (''party'', SStr ''Democratic''),
          (''role'', SStr ''Senator''), (''state'', SStr ''VT'')]],
      representatives =
        [[(''name'', SStr ''Becca Balint''), (''party'', SStr ''Democratic''),
          (''role'', SStr ''Representative''), (''district'', SStr ''VT-AL'')]]\<rparr>"

definition test_paths :: "string list" where
  "test_paths = [''/state:ca/cd:12'', ''/district:dc'', ''/state:vt'']"

definition apply_test_data :: "string list \<Rightarrow> district_data \<Rightarrow> district_data" where
  "apply_test_data ids dd =
     (if list_ex (\<lambda>ocd_id. list_ex (\<lambda>ocd_path. contains ocd_path ocd_id) test_paths) ids
      then
        (let dd1 = (if list_ex (contains ''/state:ca/cd:12'') ids
                    then dict_set dd ''CA-12'' test_data_CA_12 else dd);
             dd2 = (if list_ex (contains ''/district:dc'') ids
                    then dict_set dd1 ''DC-AL'' test_data_DC_AL else dd1)
         in if list_ex (\<lambda>ocd_id. contains ''/state:vt'' ocd_id
                                  \<and> \<not> contains ''/cd:'' ocd_id) ids
            then dict_set dd2 ''VT-AL'' test_data_VT_AL else dd2)
      else dd)"

text \<open>The last loop (lines 317 to 320): only keys with a \<^verbatim>\<open>-\<close> stay.\<close>

definition remove_state_entries :: "district_data \<Rightarrow> district_data" where
  "remove_state_entries dd = filter (\<lambda>(key, entry). contains ''-'' key) dd"

definition parse_result :: "api_data \<Rightarrow> legislator_cache \<Rightarrow> py_exception + lookup_result" where
  "parse_result data cached_legislators =
     bind_result
       (fold_result (process_division cached_legislators (division_ids data))
          (division_ids data) [])
       (\<lambda>dd. bind_result (districts_from_states cached_legislators dd) (\<lambda>dd'.
          Inr (districts_dict
                (remove_state_entries (apply_test_data (division_ids data) dd')))))"

text \<open>The responses of the repository's tests for the District of Columbia and California.\<close>

definition dc_response :: api_data where
  "dc_response =
     \<lparr>divisions = Some [(''ocd-division/country:us'', ''United States''),
                        (''ocd-division/country:us/district:dc'', ''District of Columbia'')]\<rparr>"

definition ca_state_response :: api_data where
  "ca_state_response =
     \<lparr>divisions = Some [(''ocd-division/country:us/state:ca'', ''California'')]\<rparr>"

section \<open>Inputs the generic mapper accepts\<close>

text \<open>
  The inputs on which the generic mapper raises nothing: every cached record has a
  name that is text (its \<^verbatim>\<open>full_name\<close>, or no \<^verbatim>\<open>full_name\<close> at all), every identifier
  that names a district does so in lower case, and every identifier of a
  congressional district names its state.
\<close>

definition has_text_name :: "legislator \<Rightarrow> bool" where
  "has_text_name x = returns (display_name x)"

definition names_are_text :: "legislator_cache \<Rightarrow> bool" where
  "names_are_text c =
     (list_all (\<lambda>(state, entry). list_all has_text_name (list_or_empty entry))
        (list_or_empty (cache_states c))
      \<and> list_all (\<lambda>(district_id, entry).
                    case entry of None \<Rightarrow> True | Some x \<Rightarrow> has_text_name x)
          (list_or_empty (cache_districts c)))"

definition well_formed_id :: "string \<Rightarrow> bool" where
  "well_formed_id ocd_id =
     ((is_territory_division ocd_id \<longrightarrow> contains ''district:'' ocd_id)
      \<and> (is_cd_division ocd_id \<longrightarrow> contains ''state:'' ocd_id))"

section \<open>The older result mapper: parse_result of get_us_district_info_from_address.py\<close>

text \<open>
  \<open>parse_result_special\<close> is the module's own \<^verbatim>\<open>parse_result(data)\<close>, which
  \<^verbatim>\<open>get_district_info_from_civic_api\<close> calls when the import of the generic one failed.
  It reads the module's global \<^verbatim>\<open>CACHED_LEGISLATORS\<close>, here the first argument. The
  nested function \<^verbatim>\<open>add_ca12_if_needed\<close> is never called and is left out.
\<close>

definition padilla_butler :: "legislator list" where
  "padilla_butler =
     [[(''name'', SStr ''Alex Padilla''), (''party'', SStr ''Democratic''),
       (''role'', SStr ''Senator''), (''state'', SStr ''CA'')],
      [(''name'', SStr ''Laphonza R. Butler''), (''party'', SStr ''Democratic''),
       (''role'', SStr ''Senator''), (''state'', SStr ''CA'')]]"

text \<open>The bare-state branch (lines 274 to 328), with Vermont's fixed district.\<close>

definition state_division_special ::
  "legislator_cache \<Rightarrow> string \<Rightarrow> district_data \<Rightarrow> py_exception + district_data" where
  "state_division_special c ocd_id dd =
     bind_result (py_index (py_split ''state:'' ocd_id) 1) (\<lambda>piece.
     bind_result (state_bucket c dd (upper piece)) (\<lambda>dd'.
       Inr (if upper piece = ''VT'' then dict_set dd' ''VT-AL'' test_data_VT_AL else dd')))"

text \<open>The territory branch (lines 331 to 353), with the District of Columbia's delegate.\<close>

definition territory_division_special ::
  "string \<Rightarrow> district_data \<Rightarrow> py_exception + district_data" where
  "territory_division_special ocd_id dd =
     bind_result (territory_code ocd_id) (\<lambda>district_code.
       Inr (if district_code = ''DC'' then
              set_senators
                (set_representatives (ensure_entry dd (district_code @ ''-AL''))
                   (district_code @ ''-AL'')
                   [[(''name'', SStr ''Eleanor Holmes Norton''), (''party'', SStr ''Democratic''),
                     (''role'', SStr ''Delegate (Non-Voting)''),
                     (''district'', SStr (district_code @ ''-AL''))]])
                (district_code @ ''-AL'') []
            else ensure_entry dd (district_code @ ''-AL'')))"

text \<open>The congressional district branch (lines 356 to 442), with California's 12th.\<close>

definition cd_division_special ::
  "legislator_cache \<Rightarrow> string \<Rightarrow> district_data \<Rightarrow> py_exception + district_data" where
  "cd_division_special c ocd_id dd =
     bind_result (cd_state_abbr ocd_id) (\<lambda>state_abbr.
     bind_result (cd_district_id state_abbr ocd_id) (\<lambda>district_id.
       if district_id = ''CA-12'' then
         district_senators c
           (append_representative
              (set_senators (ensure_entry dd district_id) district_id padilla_butler)
              district_id
              [(''name'', SStr ''Nancy Pelosi''), (''party'', SStr ''Democratic''),
               (''role'', SStr ''Representative''), (''district'', SStr district_id)])
           state_abbr district_id
       else
         bind_result
           (case cached_representative c district_id of
              Some cached_rep \<Rightarrow> representative_info ''Representative'' district_id cached_rep
            | None \<Rightarrow> Inr (placeholder_representative district_id))
           (\<lambda>rep_data.
              district_senators c
                (append_representative (ensure_entry dd district_id) district_id rep_data)
                state_abbr district_id)))"

definition process_division_special ::
  "legislator_cache \<Rightarrow> string \<Rightarrow> district_data \<Rightarrow> py_exception + district_data" where
  "process_division_special c ocd_id dd =
     (if is_state_division ocd_id then state_division_special c ocd_id dd
      else if is_territory_division ocd_id then territory_division_special ocd_id dd
      else if is_cd_division ocd_id then cd_division_special c ocd_id dd
      else Inr dd)"

text \<open>
  The second loop (lines 445 to 455): for every identifier of California's 12th, the
  senators of the key \<^verbatim>\<open>CA-12\<close> are set again, when the key is there.
\<close>

definition force_ca12_senators :: "string \<Rightarrow> district_data \<Rightarrow> district_data" where
  "force_ca12_senators ocd_id dd =
     (if contains ''/state:ca/cd:12'' ocd_id then set_senators dd ''CA-12'' padilla_butler
      else dd)"

text \<open>The dictionary is returned as it stands (line 458): nothing is removed from it.\<close>

definition parse_result_special ::
  "legislator_cache \<Rightarrow> api_data \<Rightarrow> py_exception + lookup_result" where
  "parse_result_special cached_legislators data =
     bind_result
       (fold_result (process_division_special cached_legislators) (division_ids data) [])
       (\<lambda>dd. Inr (districts_dict (fold force_ca12_senators (division_ids data) dd)))"

section \<open>The lookup: get_us_district_info_from_address.py\<close>

text \<open>\<^verbatim>\<open>STATE_MAPPING\<close> and the table of \<^verbatim>\<open>lookup_zip_code_state\<close>.\<close>

definition STATE_MAPPING :: "(string \<times> string) list" where
  "STATE_MAPPING =
     [(''AL'', ''Alabama''), (''AK'', ''Alaska''), (''AZ'', ''Arizona''),
      (''AR'', ''Arkansas''), (''CA'', ''California''), (''CO'', ''Colorado''),
      (''CT'', ''Connecticut''), (''DE'', ''Delaware''), (''FL'', ''Florida''),
      (''GA'', ''Georgia''), (''HI'', ''Hawaii''), (''ID'', ''Idaho''),
      (''IL'', ''Illinois''), (''IN'', ''Indiana''), (''IA'', ''Iowa''),
      (''KS'', ''Kansas''), (''KY'', ''Kentucky''), (''LA'', ''Louisiana''),
      (''ME'', ''Maine''), (''MD'', ''Maryland''), (''MA'', ''Massachusetts''),
      (''MI'', ''Michigan''), (''MN'', ''Minnesota''), (''MS'', ''Mississippi''),
      (''MO'', ''Missouri''), (''MT'', ''Montana''), (''NE'', ''Nebraska''),
      (''NV'', ''Nevada''), (''NH'', ''New Hampshire''), (''NJ'', ''New Jersey''),
      (''NM'', ''New Mexico''), (''NY'', ''New York''), (''NC'', ''North Carolina''),
      (''ND'', ''North Dakota''), (''OH'', ''Ohio''), (''OK'', ''Oklahoma''),
      (''OR'', ''Oregon''), (''PA'', ''Pennsylvania''), (''RI'', ''Rhode Island''),
      (''SC'', ''South Carolina''), (''SD'', ''South Dakota''), (''TN'', ''Tennessee''),
      (''TX'', ''Texas''), (''UT'', ''Utah''), (''VT'', ''Vermont''),
      (''VA'', ''Virginia''), (''WA'', ''Washington''), (''WV'', ''West Virginia''),
      (''WI'', ''Wisconsin''), (''WY'', ''Wyoming''), (''DC'', ''District of Columbia'')]"

definition zip_to_state :: "(string \<times> string) list" where
  "zip_to_state =
     [(''94110'', ''CA''), (''94612'', ''CA''), (''10001'', ''NY''), (''82001'', ''WY'')]"

definition lookup_zip_code_state :: "string \<Rightarrow> string option" where
  "lookup_zip_code_state zip_code = map_of zip_to_state zip_code"

text \<open>
  What the module reads when it is loaded: the API key of the environment, whether the
  generic mapper could be imported, and the cached legislators.
\<close>

record environment =
  ENV_API_KEY :: "string option"
  USE_GENERIC_PARSER :: bool
  CACHED_LEGISLATORS :: legislator_cache

text \<open>\<^verbatim>\<open>get_api_key\<close>: \<^verbatim>\<open>sys.exit(1)\<close> when the key is missing or empty.\<close>

definition get_api_key :: "environment \<Rightarrow> py_exception + string" where
  "get_api_key env =
     (case ENV_API_KEY env of
        None \<Rightarrow> Inl (SystemExit 1)
      | Some key \<Rightarrow> if key = [] then Inl (SystemExit 1) else Inr key)"

text \<open>
  The civic-information API is outside the program. It is a parameter: given the
  addresses queried so far, the address and the key, it answers with a body or the
  request fails. \<^verbatim>\<open>lookup_divisions\<close> makes one request and records it; the list of
  requests made is the state that the lookup functions pass along.
\<close>

type_synonym civic_api = "string list \<Rightarrow> string \<Rightarrow> string \<Rightarrow> request_error + api_data"

definition lookup_divisions ::
  "civic_api \<Rightarrow> string list \<Rightarrow> string \<Rightarrow> string \<Rightarrow> (py_exception + api_data) \<times> string list"
  where
  "lookup_divisions api requests address api_key =
     ((case api requests address api_key of
         Inl e \<Rightarrow> Inl (RequestError e)
       | Inr body \<Rightarrow> Inr body),
      requests @ [address])"

text \<open>
  \<^verbatim>\<open>get_district_info_from_civic_api\<close>. The body of the \<^verbatim>\<open>try\<close> is
  \<open>civic_api_attempt\<close>; \<^verbatim>\<open>except Exception\<close> turns what it catches into \<^verbatim>\<open>None\<close> and
  lets the rest pass.
\<close>

definition civic_api_attempt ::
  "environment \<Rightarrow> civic_api \<Rightarrow> string list \<Rightarrow> string
     \<Rightarrow> (py_exception + lookup_result) \<times> string list" where
  "civic_api_attempt env api requests address =
     (case get_api_key env of
        Inl e \<Rightarrow> (Inl e, requests)
      | Inr api_key \<Rightarrow>
          (case lookup_divisions api requests address api_key of
             (Inl e, requests') \<Rightarrow> (Inl e, requests')
           | (Inr data, requests') \<Rightarrow>
               (if USE_GENERIC_PARSER env then parse_result data (CACHED_LEGISLATORS env)
                else parse_result_special (CACHED_LEGISLATORS env) data,
                requests')))"

definition get_district_info_from_civic_api ::
  "environment \<Rightarrow> civic_api \<Rightarrow> string list \<Rightarrow> string
     \<Rightarrow> (py_exception + lookup_result option) \<times> string list" where
  "get_district_info_from_civic_api env api requests address =
     (case civic_api_attempt env api requests address of
        (Inr result, requests') \<Rightarrow> (Inr (Some result), requests')
      | (Inl e, requests') \<Rightarrow>
          (if is_Exception e then Inr None else Inl e, requests'))"

text \<open>\<^verbatim>\<open>filter_legislator_data\<close>.\<close>

definition filter_district_info ::
  "district_info \<Rightarrow> string set option \<Rightarrow> string set option \<Rightarrow> district_info" where
  "filter_district_info district_info keep_fields delete_fields =
     \<lparr>info_senators =
        Some (map (\<lambda>senator. filter_data senator keep_fields delete_fields)
                (list_or_empty (info_senators district_info))),
      info_representatives =
        Some (map (\<lambda>rep. filter_data rep keep_fields delete_fields)
                (list_or_empty (info_representatives district_info))),
      info_others = []\<rparr>"

text \<open>
  The loop over the districts: \<^verbatim>\<open>result.setdefault("districts", {})[district_id] = ...\<close>
  makes the key \<^verbatim>\<open>"districts"\<close> in its first turn, so the key is missing from the result
  when there is no district.
\<close>

definition filter_districts ::
  "(string \<times> district_info) list \<Rightarrow> string set option \<Rightarrow> string set option
     \<Rightarrow> (string \<times> district_info) list option" where
  "filter_districts ds keep_fields delete_fields =
     (if ds = [] then None
      else Some (fold (\<lambda>(district_id, district_info) acc.
                    dict_set acc district_id
                      (filter_district_info district_info keep_fields delete_fields))
                  ds []))"

definition filter_legislator_data ::
  "lookup_result \<Rightarrow> string set option \<Rightarrow> string set option \<Rightarrow> lookup_result" where
  "filter_legislator_data data keep_fields delete_fields =
     \<lparr>result_districts =
        filter_districts (list_or_empty (result_districts data)) keep_fields delete_fields,
      result_error = result_error data,
      result_others = []\<rparr>"

text \<open>
  \<^verbatim>\<open>get_us_district_info_from_address\<close>. \<^verbatim>\<open>not result\<close> holds for \<^verbatim>\<open>None\<close> and for a
  dictionary without keys; \<^verbatim>\<open>not result.get("districts")\<close> holds when the key is missing
  or its dictionary is empty.
\<close>

definition result_falsy :: "lookup_result option \<Rightarrow> bool" where
  "result_falsy result = (case result of None \<Rightarrow> True | Some r \<Rightarrow> result_keys r = {})"

definition no_districts :: "lookup_result option \<Rightarrow> bool" where
  "no_districts result =
     (result_falsy result
      \<or> (case result of None \<Rightarrow> True | Some r \<Rightarrow> list_or_empty (result_districts r) = []))"

definition full_address :: "string \<Rightarrow> string" where
  "full_address address = (if \<not> contains ''USA'' address then address @ '', USA'' else address)"

text \<open>
  The fallback (lines 525 to 533): the second request, when the first gave no
  districts and the address is a ZIP code of the table.
\<close>

definition zip_fallback ::
  "environment \<Rightarrow> civic_api \<Rightarrow> string \<Rightarrow> (lookup_result option \<times> string list)
     \<Rightarrow> (py_exception + lookup_result option) \<times> string list" where
  "zip_fallback env api address first =
     (case first of (result, requests) \<Rightarrow>
       if no_districts result then
         (if length (strip address) = 5 \<and> isdigit (strip address) then
            (case lookup_zip_code_state (strip address) of
               None \<Rightarrow> (Inr result, requests)
             | Some state \<Rightarrow>
                 if state = [] then (Inr result, requests)
                 else (case map_of STATE_MAPPING state of
                         None \<Rightarrow> (Inr result, requests)
                       | Some state_name \<Rightarrow>
                           if state_name = [] then (Inr result, requests)
                           else get_district_info_from_civic_api env api requests
                                  (state_name @ '', USA'')))
          else (Inr result, requests))
       else (Inr result, requests))"

definition not_found :: "string \<Rightarrow> lookup_result" where
  "not_found address =
     \<lparr>result_districts = Some [],
      result_error = Some (SStr (''Could not find district information for ''
         @ [CHR 0x27] @ address @ [CHR 0x27]
         @ ''. Try providing a more specific address.'')),
      result_others = []\<rparr>"

definition get_us_district_info_from_address ::
  "environment \<Rightarrow> civic_api \<Rightarrow> string list \<Rightarrow> string \<Rightarrow> string set option
     \<Rightarrow> string set option \<Rightarrow> (py_exception + lookup_result) \<times> string list" where
  "get_us_district_info_from_address env api requests address keep_fields delete_fields =
     (case get_district_info_from_civic_api env api requests (full_address address) of
        (Inl e, requests1) \<Rightarrow> (Inl e, requests1)
      | (Inr result1, requests1) \<Rightarrow>
          (case zip_fallback env api address (result1, requests1) of
             (Inl e, requests2) \<Rightarrow> (Inl e, requests2)
           | (Inr result, requests2) \<Rightarrow>
               (case result of
                  None \<Rightarrow> (Inr (not_found address), requests2)
                | Some r \<Rightarrow>
                    if result_falsy result then (Inr (not_found address), requests2)
                    else (Inr (filter_legislator_data r keep_fields delete_fields),
                          requests2))))"

text \<open>
  A setting to run the lookup in: the key the tests use, the generic mapper, no cached
  legislators (\<^verbatim>\<open>CACHED_LEGISLATORS = {}\<close>); an API that knows only the country for
  every address; and an API whose every request times out.
\<close>

definition no_cache :: legislator_cache where
  "no_cache = \<lparr>cache_states = None, cache_districts = None\<rparr>"

definition test_environment :: environment where
  "test_environment =
     \<lparr>ENV_API_KEY = Some ''fake_api_key'', USE_GENERIC_PARSER = True,
      CACHED_LEGISLATORS = no_cache\<rparr>"

definition country_only :: api_data where
  "country_only = \<lparr>divisions = Some [(''ocd-division/country:us'', ''United States'')]\<rparr>"

definition country_only_api :: civic_api where
  "country_only_api requests address api_key = Inr country_only"

definition timeout_api :: civic_api where
  "timeout_api requests address api_key = Inl Timeout"

section \<open>The cache builder: update_us_congressional_data.py\<close>



















section \<open>Facts about strings and dictionaries\<close>

lemma starts_with_iff: "starts_with p s \<longleftrightarrow> (\<exists>t. s = p @ t)"
  by (induction p s rule: starts_with.induct) auto

lemma contains_iff: "contains p s \<longleftrightarrow> (\<exists>a b. s = a @ p @ b)"
proof (induction s)
  case Nil
  then show ?case by auto
next
  case (Cons c cs)
  show ?case
  proof
    assume "contains p (c # cs)"
    then consider "starts_with p (c # cs)" | "contains p cs" by auto
    then show "\<exists>a b. c # cs = a @ p @ b"
    proof cases
      case 1
      then obtain t where "c # cs = p @ t" by (auto simp: starts_with_iff)
      then have "c # cs = [] @ p @ t" by simp
      then show ?thesis by blast
    next
      case 2
      with Cons.IH obtain a b where "cs = a @ p @ b" by blast
      then have "c # cs = (c # a) @ p @ b" by simp
      then show ?thesis by blast
    qed
  next
    assume "\<exists>a b. c # cs = a @ p @ b"
    then obtain a b where ab: "c # cs = a @ p @ b" by blast
    show "contains p (c # cs)"
    proof (cases a)
      case Nil
      with ab have "starts_with p (c # cs)" by (auto simp: starts_with_iff)
      then show ?thesis by simp
    next
      case (Cons x a')
      with ab have "cs = a' @ p @ b" by simp
      with Cons.IH have "contains p cs" by blast
      then show ?thesis by simp
    qed
  qed
qed

lemma contains_char: "contains [ch] s \<longleftrightarrow> ch \<in> set s"
  by (induction s) auto


lemma contains_tail: "contains (a @ b) s \<Longrightarrow> contains b s"
proof -
  assume "contains (a @ b) s"
  then obtain x y where "s = x @ (a @ b) @ y" by (auto simp: contains_iff)
  then have "s = (x @ a) @ b @ y" by simp
  then show ?thesis unfolding contains_iff by blast
qed


lemma map_of_dict_set: "map_of (dict_set d k v) k' = (if k' = k then Some v else map_of d k')"
  by (induction d) auto

lemma bind_result_Inr:
  "bind_result m f = Inr y \<longleftrightarrow> (\<exists>x. m = Inr x \<and> f x = Inr y)"
  by (cases m) (auto simp: bind_result_def)

section \<open>What the mappers can raise\<close>

text \<open>
  The mappers raise an IndexError (a split without its second piece) or an
  AttributeError (\<^verbatim>\<open>.strip()\<close> of a name that is not text) and nothing else, so
  \<^verbatim>\<open>except Exception\<close> catches whatever they raise.
\<close>

lemma catchable_Inr [simp]: "catchable (Inr x)"
  by (simp add: catchable_def)

lemma catchable_bind:
  assumes "catchable m" and "\<And>x. catchable (f x)"
  shows "catchable (bind_result m f)"
  using assms by (cases m) (simp_all add: bind_result_def catchable_def)

lemma catchable_map:
  assumes "\<And>x. catchable (f x)"
  shows "catchable (map_result f xs)"
  by (induction xs) (simp_all add: assms catchable_bind)

lemma catchable_fold:
  assumes "\<And>x s. catchable (f x s)"
  shows "catchable (fold_result f xs s)"
  by (induction xs arbitrary: s) (simp_all add: assms catchable_bind)

lemma catchable_py_index [simp]: "catchable (py_index xs i)"
  by (simp add: py_index_def catchable_def)

lemma catchable_py_strip [simp]: "catchable (py_strip v)"
  by (cases v) (simp_all add: catchable_def)

lemma catchable_display_name [simp]: "catchable (display_name x)"
  by (simp add: display_name_def)

lemma catchable_senator_info [simp]: "catchable (senator_info st x)"
  by (simp add: senator_info_def catchable_bind)

lemma catchable_representative_info [simp]: "catchable (representative_info role d x)"
  by (simp add: representative_info_def catchable_bind)

lemma catchable_store [simp]: "catchable (store_cached_senators dd k st cs)"
  by (simp add: store_cached_senators_def catchable_bind catchable_map)

lemma catchable_district_senators [simp]: "catchable (district_senators c dd st d)"
  by (simp add: district_senators_def split: option.splits)

lemma catchable_state_bucket [simp]: "catchable (state_bucket c dd st)"
  by (simp add: state_bucket_def catchable_bind split: option.splits)

lemma catchable_territory_code [simp]: "catchable (territory_code ocd_id)"
  by (simp add: territory_code_def catchable_bind)

lemma catchable_cd_state_abbr [simp]: "catchable (cd_state_abbr ocd_id)"
  by (simp add: cd_state_abbr_def catchable_bind)

lemma catchable_cd_district_id [simp]: "catchable (cd_district_id st ocd_id)"
  by (simp add: cd_district_id_def catchable_bind)

lemma catchable_at_large [simp]: "catchable (add_at_large_district c dd st d)"
  by (simp add: add_at_large_district_def at_large_representatives_def catchable_bind
      split: option.splits)

lemma catchable_process_division [simp]: "catchable (process_division c ids ocd_id dd)"
  by (simp add: process_division_def state_division_def territory_division_def
      cd_division_def catchable_bind split: option.splits)

lemma catchable_districts_from_states [simp]: "catchable (districts_from_states c dd)"
  by (simp add: districts_from_states_def derive_at_large_def catchable_fold)

lemma catchable_parse_result: "catchable (parse_result data c)"
  by (simp add: parse_result_def catchable_bind catchable_fold)

lemma catchable_process_division_special [simp]:
  "catchable (process_division_special c ocd_id dd)"
  by (simp add: process_division_special_def state_division_special_def
      territory_division_special_def cd_division_special_def catchable_bind
      split: option.splits)

lemma catchable_parse_result_special: "catchable (parse_result_special c data)"
  by (simp add: parse_result_special_def catchable_bind catchable_fold)

section \<open>Properties of field filtering\<close>

lemma keys_filter_subset: "keys (filter P d) \<subseteq> keys d"
  by (auto simp: keys_def)

lemma keys_filter_member: "keys (filter (\<lambda>(k, v). k \<in> K) d) = K \<inter> keys d"
  by (force simp: keys_def)

lemma filter_data_subset: "keys (filter_data r keep del) \<subseteq> keys r"
  by (simp add: filter_data_def keys_filter_subset)

lemma filter_fields_eq: "filter_fields r keep del = filter_data r keep del"
  by (simp add: filter_fields_def filter_data_def)

text \<open>
  C3 (as stated) fails for the empty keep-set: \<^verbatim>\<open>if keep_fields:\<close> is false for it, so
  the record comes back whole, while the intersection with the empty set is empty.
\<close>

theorem filter_data_empty_keep_counterexample:
  "keys (filter_data [(''name'', SStr ''Ada'')] (Some {}) None)
     \<noteq> {} \<inter> keys [(''name'', SStr ''Ada'')]"
  by (simp add: filter_data_def set_truthy_def keys_def)

text \<open>
  C3 (amended): for every record and every mutually exclusive pair of keep-set and
  delete-set, the keys of the filtered record are a subset of the keys of the record;
  and for every non-empty keep-set the keys of the filtered record are exactly the
  keep-set intersected with the keys of the record. Both \<open>filter_data\<close> and
  \<open>filter_fields\<close> behave so.
\<close>

theorem filter_data_keys:
  assumes "mutually_exclusive keep del"
  shows "keys (filter_data r keep del) \<subseteq> keys r
       \<and> keys (filter_fields r keep del) \<subseteq> keys r
       \<and> (\<forall>K. keep = Some K \<and> K \<noteq> {} \<longrightarrow>
            keys (filter_data r keep del) = K \<inter> keys r
          \<and> keys (filter_fields r keep del) = K \<inter> keys r)"
proof -
  have "keys (filter_data r (Some K) del) = K \<inter> keys r" if "K \<noteq> {}" for K
    using that by (simp add: filter_data_def set_truthy_def fields_of_def keys_filter_member)
  then show ?thesis
    by (simp add: filter_fields_eq filter_data_subset)
qed

theorem filter_data_keys_witness:
  "mutually_exclusive (Some {''name'', ''party''}) None
   \<and> keys (filter_data [(''name'', SStr ''Ada''), (''phone'', SStr ''555'')]
        (Some {''name'', ''party''}) None) = {''name''}
   \<and> keys (filter_fields [(''name'', SStr ''Ada''), (''phone'', SStr ''555'')]
        (Some {''name'', ''party''}) None) = {''name''}"
proof -
  have ex: "mutually_exclusive (Some {''name'', ''party''}) None"
    by (simp add: mutually_exclusive_def)
  from filter_data_keys [OF ex, of "[(''name'', SStr ''Ada''), (''phone'', SStr ''555'')]"]
  show ?thesis using ex by (auto simp: keys_def)
qed

section \<open>Properties of the lookup\<close>

lemma test_environment_key: "get_api_key test_environment = Inr ''fake_api_key''"
  by (simp add: get_api_key_def test_environment_def)

lemma civic_api_requests:
  assumes "get_api_key env = Inr key"
  shows "snd (get_district_info_from_civic_api env api requests address) = requests @ [address]"
  using assms
  by (auto simp: get_district_info_from_civic_api_def civic_api_attempt_def
      lookup_divisions_def split: sum.splits prod.splits)



text \<open>
  With a key, \<open>get_district_info_from_civic_api\<close> makes its request and returns:
  whatever the request or the mapper raises becomes \<^verbatim>\<open>None\<close>.
\<close>

lemma civic_api_never_raises:
  assumes "get_api_key env = Inr key"
  shows "\<exists>result. get_district_info_from_civic_api env api requests address
           = (Inr result, requests @ [address])"
proof -
  obtain m where m: "m = (if USE_GENERIC_PARSER env
      then (\<lambda>data. parse_result data (CACHED_LEGISLATORS env))
      else parse_result_special (CACHED_LEGISLATORS env))" by blast
  have c: "catchable (m data)" for data
    by (simp add: m catchable_parse_result catchable_parse_result_special)
  show ?thesis
  proof (cases "api requests address key")
    case (Inl e)
    with assms show ?thesis
      by (simp add: get_district_info_from_civic_api_def civic_api_attempt_def
          lookup_divisions_def)
  next
    case (Inr data)
    have att: "civic_api_attempt env api requests address = (m data, requests @ [address])"
      using assms Inr by (simp add: civic_api_attempt_def lookup_divisions_def m)
    show ?thesis
    proof (cases "m data")
      case (Inl e)
      with c [of data] have "is_Exception e" by (simp add: catchable_def)
      with att Inl show ?thesis by (simp add: get_district_info_from_civic_api_def)
    next
      case (Inr r)
      with att show ?thesis by (simp add: get_district_info_from_civic_api_def)
    qed
  qed
qed

text \<open>
  C9: when the division lookup raises (a timeout, a failed connection, an HTTP error, a
  body that is not JSON), \<open>get_district_info_from_civic_api\<close> returns \<^verbatim>\<open>None\<close> and no
  exception reaches its caller. The lookup is only made when an API key is configured.
\<close>

theorem lookup_error_gives_None:
  assumes "get_api_key env = Inr key"
    and "api requests address key = Inl e"
  shows "get_district_info_from_civic_api env api requests address
           = (Inr None, requests @ [address])"
  using assms
  by (simp add: get_district_info_from_civic_api_def civic_api_attempt_def
      lookup_divisions_def)

theorem lookup_error_gives_None_witness:
  "get_api_key test_environment = Inr ''fake_api_key''
   \<and> timeout_api [] ''94110, USA'' ''fake_api_key'' = Inl Timeout
   \<and> get_district_info_from_civic_api test_environment timeout_api [] ''94110, USA''
       = (Inr None, [''94110, USA''])"
proof -
  have t: "timeout_api [] ''94110, USA'' ''fake_api_key'' = Inl Timeout"
    by (simp add: timeout_api_def)
  from lookup_error_gives_None [of test_environment "''fake_api_key''" timeout_api "[]"
      "''94110, USA''" Timeout] test_environment_key t
  show ?thesis by simp
qed




text \<open>The country alone gives no district, whatever the cache.\<close>

lemma parse_result_country_only: "parse_result country_only c = Inr (districts_dict [])"
proof -
  have ids: "division_ids country_only = [''ocd-division/country:us'']"
    by (simp add: division_ids_def division_items_def country_only_def)
  have "process_division c ids' ''ocd-division/country:us'' dd = Inr dd" for ids' dd
    by (simp add: process_division_def is_state_division_def is_territory_division_def
        is_cd_division_def lower_def lower_char_def)
  then show ?thesis
    by (simp add: parse_result_def ids bind_result_def districts_from_states_def
        apply_test_data_def test_paths_def remove_state_entries_def)
qed

lemma country_only_lookup:
  "get_district_info_from_civic_api test_environment country_only_api requests address
     = (Inr (Some (districts_dict [])), requests @ [address])"
  by (simp add: get_district_info_from_civic_api_def civic_api_attempt_def
      get_api_key_def lookup_divisions_def country_only_api_def
      parse_result_country_only test_environment_def)




text \<open>
  C8 (as stated) fails for an address that holds \<^verbatim>\<open>USA\<close> but not \<^verbatim>\<open>, USA\<close>: the test is
  \<^verbatim>\<open>"USA" not in address\<close>, so nothing is appended.
\<close>

theorem usa_suffix_counterexample:
  "\<not> contains '', USA'' ''1 USAA Blvd''
   \<and> snd (get_us_district_info_from_address test_environment country_only_api []
            ''1 USAA Blvd'' None None) = [''1 USAA Blvd'']
   \<and> ''1 USAA Blvd'' \<noteq> ''1 USAA Blvd'' @ '', USA''"
proof -
  have fa: "full_address ''1 USAA Blvd'' = ''1 USAA Blvd''"
    by (simp add: full_address_def)
  have s: "strip ''1 USAA Blvd'' = ''1 USAA Blvd''"
    by (simp add: strip_def is_space_def)
  have "snd (get_us_district_info_from_address test_environment country_only_api []
      ''1 USAA Blvd'' None None) = [''1 USAA Blvd'']"
    by (simp add: get_us_district_info_from_address_def fa country_only_lookup
        zip_fallback_def s)
  then show ?thesis by simp
qed

text \<open>
  C8 (amended): for every address, the first request (one is made when an API key is
  configured) is for the address with \<^verbatim>\<open>, USA\<close> appended whenever the text \<^verbatim>\<open>USA\<close> does
  not occur anywhere in the address, and for the address unchanged otherwise.
\<close>

theorem first_request:
  assumes key: "get_api_key env = Inr key"
  shows "\<exists>later. snd (get_us_district_info_from_address env api requests address keep del)
           = requests @ [if contains ''USA'' address then address else address @ '', USA'']
             @ later"
proof -
  obtain r1 requests1 where
    first: "get_district_info_from_civic_api env api requests (full_address address)
              = (r1, requests1)"
    by (cases "get_district_info_from_civic_api env api requests (full_address address)")
  have r1: "requests1 = requests @ [full_address address]"
    using civic_api_requests [OF key, of api requests "full_address address"] first by simp
  have fb: "\<exists>later. snd (zip_fallback env api address (result1, requests1)) = requests1 @ later"
    for result1
    using civic_api_requests [OF key, of api requests1]
    by (simp add: zip_fallback_def split: option.splits)
  show ?thesis
  proof (cases r1)
    case (Inl e)
    with first r1 show ?thesis
      by (simp add: get_us_district_info_from_address_def full_address_def)
  next
    case (Inr result1)
    from fb [of result1] obtain later where
      l: "snd (zip_fallback env api address (result1, requests1)) = requests1 @ later"
      by blast
    have "snd (get_us_district_info_from_address env api requests address keep del)
        = snd (zip_fallback env api address (result1, requests1))"
      using first Inr
      by (auto simp: get_us_district_info_from_address_def
          split: prod.splits sum.splits option.splits)
    with l r1 show ?thesis by (simp add: full_address_def)
  qed
qed

theorem first_request_witness:
  "get_api_key test_environment = Inr ''fake_api_key''
   \<and> (\<exists>later. snd (get_us_district_info_from_address test_environment country_only_api []
                    ''123 Main St'' None None) = [''123 Main St, USA''] @ later)"
  using first_request [OF test_environment_key, of country_only_api "[]" "''123 Main St''"
      None None] test_environment_key
  by simp

text \<open>
  When both resolutions end without a result (\<^verbatim>\<open>None\<close>), the lookup returns the
  dictionary with no districts and a message.
\<close>

lemma not_found_when_no_result:
  assumes "get_district_info_from_civic_api env api requests (full_address address)
             = (Inr None, requests1)"
    and "zip_fallback env api address (None, requests1) = (Inr None, requests2)"
  shows "get_us_district_info_from_address env api requests address keep del
           = (Inr (not_found address), requests2)"
    and "result_districts (not_found address) = Some []"
    and "\<exists>message. result_error (not_found address) = Some (SStr message) \<and> message \<noteq> []"
  using assms by (simp_all add: get_us_district_info_from_address_def not_found_def)

text \<open>With a key, the lookup itself returns a dictionary, whatever the API does.\<close>

lemma lookup_never_raises:
  assumes key: "get_api_key env = Inr key"
  shows "\<exists>result. fst (get_us_district_info_from_address env api requests address keep del)
           = Inr result"
proof -
  have attempt: "\<not> isl (fst (get_district_info_from_civic_api env api reqs a))" for reqs a
    using civic_api_never_raises [OF key, of api reqs a] by auto
  have fallback: "\<not> isl (fst (zip_fallback env api address (result1, reqs)))" for result1 reqs
    by (simp add: zip_fallback_def attempt split: option.splits)
  have "\<not> isl (fst (get_us_district_info_from_address env api requests address keep del))"
  proof (cases "get_district_info_from_civic_api env api requests (full_address address)")
    case (Pair r1 requests1)
    with attempt [of requests "full_address address"] obtain result1 where
      r1: "r1 = Inr result1" by (cases r1) auto
    show ?thesis
    proof (cases "zip_fallback env api address (result1, requests1)")
      case inner: (Pair r2 requests2)
      with fallback [of result1 requests1] obtain result2 where
        r2: "r2 = Inr result2" by (cases r2) auto
      show ?thesis
        by (simp add: get_us_district_info_from_address_def Pair r1 inner r2
            split: option.splits)
    qed
  qed
  then show ?thesis
    by (cases "fst (get_us_district_info_from_address env api requests address keep del)")
      auto
qed

text \<open>
  C1 fails where a resolution succeeds with no district in it: the API knows only the
  country of the address, the mapper returns \<^verbatim>\<open>{"districts": {}}\<close>, which is not \<^verbatim>\<open>None\<close>
  and not an empty dictionary, so \<^verbatim>\<open>if not result\<close> lets it through and
  \<^verbatim>\<open>filter_legislator_data\<close> returns the dictionary without any key.
\<close>

theorem no_districts_returns_empty_dict:
  "get_us_district_info_from_address test_environment country_only_api [] ''Nowhere'' None None
     = (Inr \<lparr>result_districts = None, result_error = None, result_others = []\<rparr>,
        [''Nowhere, USA''])"
proof -
  have fa: "full_address ''Nowhere'' = ''Nowhere, USA''"
    by (simp add: full_address_def)
  have s: "length (strip ''Nowhere'') \<noteq> 5"
    by (simp add: strip_def is_space_def)
  have t: "\<not> result_falsy (Some (districts_dict []))"
    by (simp add: result_falsy_def result_keys_def districts_dict_def)
  show ?thesis
    using s t
    by (simp add: get_us_district_info_from_address_def fa country_only_lookup
        zip_fallback_def filter_legislator_data_def filter_districts_def
        list_or_empty_def districts_dict_def)
qed

section \<open>Properties of filter_legislator_data\<close>

lemma map_of_fold_dict_set:
  "map_of (fold (\<lambda>(k, i) acc. dict_set acc k (f i)) ds acc0) k
     = (case map_of (rev ds) k of None \<Rightarrow> map_of acc0 k | Some i \<Rightarrow> Some (f i))"
proof (induction ds arbitrary: acc0)
  case Nil
  then show ?case by simp
next
  case (Cons p ds)
  obtain k' i' where p: "p = (k', i')" by (cases p)
  show ?case
    by (simp add: p Cons.IH map_of_dict_set map_add_def split: option.splits)
qed

lemma values_fold_dict_set:
  assumes "(k, v) \<in> set (fold (\<lambda>(k, i) acc. dict_set acc k (f i)) ds acc0)"
  shows "(k, v) \<in> set acc0 \<or> (\<exists>i. v = f i)"
  using assms
proof (induction ds arbitrary: acc0)
  case Nil
  then show ?case by simp
next
  case (Cons p ds)
  obtain k' i' where p: "p = (k', i')" by (cases p)
  have ds: "(a, b) \<in> set (dict_set d k' (f i')) \<Longrightarrow> (a, b) \<in> set d \<or> b = f i'" for a b d
    by (induction d) (auto split: if_splits)
  from Cons.prems have "(k, v) \<in> set (dict_set acc0 k' (f i')) \<or> (\<exists>i. v = f i)"
    using Cons.IH [of "dict_set acc0 k' (f i')"] by (simp add: p)
  with ds [of k v acc0] show ?case by blast
qed

lemma filter_district_info_keys:
  "info_keys (filter_district_info i keep del) = {''senators'', ''representatives''}"
  by (auto simp: info_keys_def filter_district_info_def keys_def)

lemma filter_districts_entries:
  assumes "filter_districts ds keep del = Some ds'" and "(k, i') \<in> set ds'"
  shows "\<exists>i. i' = filter_district_info i keep del"
proof -
  from assms(1) have
    "ds' = fold (\<lambda>(k, i) acc. dict_set acc k (filter_district_info i keep del)) ds []"
    by (simp add: filter_districts_def split: if_splits)
  with assms(2) values_fold_dict_set [of k i' "\<lambda>i. filter_district_info i keep del" ds "[]"]
  show ?thesis by simp
qed

lemma filter_districts_lookup:
  assumes "distinct (map fst ds)" and "map_of ds k = Some i"
  shows "\<exists>ds'. filter_districts ds keep del = Some ds'
           \<and> map_of ds' k = Some (filter_district_info i keep del)"
proof -
  from assms(2) have "ds \<noteq> []" by auto
  moreover have "map_of (rev ds) k = Some i"
  proof -
    have "distinct (map fst (rev ds))" using assms(1) by (metis distinct_rev rev_map)
    moreover have "(k, i) \<in> set (rev ds)" using assms(2) by (auto dest: map_of_SomeD)
    ultimately show ?thesis by simp
  qed
  ultimately show ?thesis
    by (simp add: filter_districts_def
        map_of_fold_dict_set [where f = "\<lambda>i. filter_district_info i keep del"])
qed

text \<open>
  C10: for every input dictionary of the shape of a lookup result,
  \<open>filter_legislator_data\<close> returns a dictionary whose top-level keys are among
  \<^verbatim>\<open>districts\<close> and \<^verbatim>\<open>error\<close>; \<^verbatim>\<open>error\<close> is in the output exactly when it is in the input,
  with the same value; every other top-level key is dropped; every district entry of
  the output has exactly the keys \<^verbatim>\<open>senators\<close> and \<^verbatim>\<open>representatives\<close>, each a list, the
  filtered list of the input or the empty list when the input has none; and when the
  input has no district and no \<^verbatim>\<open>error\<close>, the output is the dictionary without keys.
\<close>

theorem filter_legislator_data_shape:
  "result_keys (filter_legislator_data data keep del) \<subseteq> {''districts'', ''error''}
   \<and> result_error (filter_legislator_data data keep del) = result_error data
   \<and> result_others (filter_legislator_data data keep del) = []
   \<and> (\<forall>ds' k i'. result_districts (filter_legislator_data data keep del) = Some ds'
          \<and> (k, i') \<in> set ds'
        \<longrightarrow> info_keys i' = {''senators'', ''representatives''}
            \<and> info_senators i' \<noteq> None \<and> info_representatives i' \<noteq> None)
   \<and> (\<forall>ds k i. result_districts data = Some ds \<and> distinct (map fst ds)
          \<and> map_of ds k = Some i
        \<longrightarrow> (\<exists>ds'. result_districts (filter_legislator_data data keep del) = Some ds'
              \<and> map_of ds' k =
                  Some \<lparr>info_senators =
                          Some (map (\<lambda>s. filter_data s keep del)
                                  (list_or_empty (info_senators i))),
                        info_representatives =
                          Some (map (\<lambda>r. filter_data r keep del)
                                  (list_or_empty (info_representatives i))),
                        info_others = []\<rparr>))
   \<and> (list_or_empty (result_districts data) = [] \<and> result_error data = None
        \<longrightarrow> result_keys (filter_legislator_data data keep del) = {}
            \<and> result_districts (filter_legislator_data data keep del) = None)"
proof (intro conjI allI impI)
  show "result_keys (filter_legislator_data data keep del) \<subseteq> {''districts'', ''error''}"
    by (auto simp: result_keys_def filter_legislator_data_def keys_def split: if_splits)
  show "result_error (filter_legislator_data data keep del) = result_error data"
    by (simp add: filter_legislator_data_def)
  show "result_others (filter_legislator_data data keep del) = []"
    by (simp add: filter_legislator_data_def)
next
  fix ds' k i'
  assume a: "result_districts (filter_legislator_data data keep del) = Some ds'
      \<and> (k, i') \<in> set ds'"
  then have "filter_districts (list_or_empty (result_districts data)) keep del = Some ds'"
    by (simp add: filter_legislator_data_def)
  with a obtain i where i: "i' = filter_district_info i keep del"
    using filter_districts_entries by blast
  show "info_keys i' = {''senators'', ''representatives''}"
    unfolding i by (rule filter_district_info_keys)
  show "info_senators i' \<noteq> None" by (simp add: i filter_district_info_def)
  show "info_representatives i' \<noteq> None" by (simp add: i filter_district_info_def)
next
  fix ds k i
  assume a: "result_districts data = Some ds \<and> distinct (map fst ds) \<and> map_of ds k = Some i"
  then have "list_or_empty (result_districts data) = ds" by (simp add: list_or_empty_def)
  with a filter_districts_lookup [of ds k i keep del]
  show "\<exists>ds'. result_districts (filter_legislator_data data keep del) = Some ds'
      \<and> map_of ds' k =
          Some \<lparr>info_senators =
                  Some (map (\<lambda>s. filter_data s keep del) (list_or_empty (info_senators i))),
                info_representatives =
                  Some (map (\<lambda>r. filter_data r keep del)
                          (list_or_empty (info_representatives i))),
                info_others = []\<rparr>"
    by (simp add: filter_legislator_data_def filter_district_info_def)
next
  assume a: "list_or_empty (result_districts data) = [] \<and> result_error data = None"
  then show "result_keys (filter_legislator_data data keep del) = {}"
    by (simp add: result_keys_def filter_legislator_data_def filter_districts_def keys_def)
  from a show "result_districts (filter_legislator_data data keep del) = None"
    by (simp add: filter_legislator_data_def filter_districts_def)
qed

theorem filter_legislator_data_shape_witness:
  "filter_legislator_data
     \<lparr>result_districts =
        Some [(''DC-AL'', \<lparr>info_senators = None,
                           info_representatives = Some [[(''name'', SStr ''Norton''),
                                                         (''role'', SStr ''Delegate'')]],
                           info_others = [(''note'', SNone)]\<rparr>)],
      result_error = Some (SStr ''partial''),
      result_others = [(''kind'', SStr ''x'')]\<rparr>
     (Some {''name''}) None
   = \<lparr>result_districts =
        Some [(''DC-AL'', \<lparr>info_senators = Some [],
                           info_representatives = Some [[(''name'', SStr ''Norton'')]],
                           info_others = []\<rparr>)],
      result_error = Some (SStr ''partial''),
      result_others = []\<rparr>
   \<and> filter_legislator_data
       \<lparr>result_districts = Some [], result_error = None, result_others = []\<rparr> None None
     = \<lparr>result_districts = None, result_error = None, result_others = []\<rparr>"
proof -
  let ?i = "\<lparr>info_senators = None,
             info_representatives = Some [[(''name'', SStr ''Norton''),
                                           (''role'', SStr ''Delegate'')]],
             info_others = [(''note'', SNone)]\<rparr>"
  let ?data = "\<lparr>result_districts = Some [(''DC-AL'', ?i)],
      result_error = Some (SStr ''partial''), result_others = [(''kind'', SStr ''x'')]\<rparr>"
  let ?empty = "\<lparr>result_districts = Some [], result_error = None, result_others = []\<rparr>"
  have f: "filter_data [(''name'', SStr ''Norton''), (''role'', SStr ''Delegate'')]
      (Some {''name''}) None = [(''name'', SStr ''Norton'')]"
    by (simp add: filter_data_def set_truthy_def fields_of_def)
  have one: "filter_legislator_data ?data (Some {''name''}) None
      = \<lparr>result_districts =
           Some [(''DC-AL'', \<lparr>info_senators = Some [],
                              info_representatives = Some [[(''name'', SStr ''Norton'')]],
                              info_others = []\<rparr>)],
         result_error = Some (SStr ''partial''), result_others = []\<rparr>"
    by (simp add: filter_legislator_data_def filter_districts_def filter_district_info_def
        list_or_empty_def f)
  from filter_legislator_data_shape [of ?empty None None]
  have "result_keys (filter_legislator_data ?empty None None) = {}
      \<and> result_districts (filter_legislator_data ?empty None None) = None"
    by (simp add: list_or_empty_def)
  then have two: "filter_legislator_data ?empty None None
      = \<lparr>result_districts = None, result_error = None, result_others = []\<rparr>"
    by (simp add: filter_legislator_data_def)
  from one two show ?thesis by simp
qed

section \<open>When the generic mapper returns\<close>

lemma returns_Inr [simp]: "returns (Inr x)"
  by (simp add: returns_def)

lemma returns_iff: "returns m \<longleftrightarrow> (\<exists>x. m = Inr x)"
  by (cases m) (simp_all add: returns_def)

lemma returns_bind:
  assumes "returns m" and "\<And>x. m = Inr x \<Longrightarrow> returns (f x)"
  shows "returns (bind_result m f)"
  using assms by (cases m) (simp_all add: bind_result_def returns_def)

lemma returns_map:
  assumes "list_all (\<lambda>x. returns (f x)) xs"
  shows "returns (map_result f xs)"
  using assms by (induction xs) (simp_all add: returns_bind)

lemma returns_fold:
  assumes "\<And>x s. x \<in> set xs \<Longrightarrow> returns (f x s)"
  shows "returns (fold_result f xs s)"
  using assms by (induction xs arbitrary: s) (simp_all add: returns_bind)

lemma find_sep_contains:
  assumes "contains sep s"
  shows "\<exists>before after. find_sep sep s = Some (before, after)"
  using assms
proof (induction s)
  case Nil
  then show ?case by simp
next
  case (Cons ch s)
  show ?case
  proof (cases "starts_with sep (ch # s)")
    case True
    then show ?thesis by simp
  next
    case False
    with Cons.prems have "contains sep s" by simp
    with Cons.IH obtain before after where "find_sep sep s = Some (before, after)" by blast
    with False show ?thesis by simp
  qed
qed

lemma py_split_nonempty: "py_split sep s \<noteq> []"
  by (subst py_split.simps) (simp split: option.splits)

lemma py_split_first: "returns (py_index (py_split sep s) 0)"
  using py_split_nonempty [of sep s] by (simp add: py_index_def)

lemma py_split_second:
  assumes "contains sep s" and "sep \<noteq> []"
  shows "returns (py_index (py_split sep s) (Suc 0))"
proof -
  from find_sep_contains [OF assms(1)] obtain before after where
    "find_sep sep s = Some (before, after)" by blast
  with assms(2) have "py_split sep s = before # py_split sep after"
    by (subst py_split.simps) simp
  with py_split_nonempty [of sep after] show ?thesis
    by (cases "py_split sep after") (simp_all add: py_index_def)
qed

lemma cached_senators_text:
  assumes "names_are_text c" and "cached_senators c state_abbr = Some cs"
  shows "list_all has_text_name cs"
proof -
  from assms(2) obtain ss entry where
    ss: "cache_states c = Some ss" "map_of ss state_abbr = Some entry"
      "cs = list_or_empty entry"
    by (auto simp: cached_senators_def list_or_empty_def split: option.splits)
  from ss(2) have "(state_abbr, entry) \<in> set ss" by (rule map_of_SomeD)
  with assms(1) ss(1) have "list_all has_text_name (list_or_empty entry)"
    by (auto simp: names_are_text_def list_or_empty_def list_all_iff)
  with ss(3) show ?thesis by simp
qed

lemma cached_representative_text:
  assumes "names_are_text c" and "cached_representative c district_id = Some x"
  shows "has_text_name x"
proof -
  from assms(2) obtain ds where
    ds: "cache_districts c = Some ds" "map_of ds district_id = Some (Some x)"
    by (auto simp: cached_representative_def split: option.splits if_splits)
  from ds(2) have "(district_id, Some x) \<in> set ds" by (rule map_of_SomeD)
  with assms(1) ds(1) show ?thesis
    by (auto simp: names_are_text_def list_or_empty_def list_all_iff)
qed

lemma returns_senator_info: "has_text_name x \<Longrightarrow> returns (senator_info st x)"
  by (simp add: senator_info_def has_text_name_def returns_bind)

lemma returns_representative_info:
  "has_text_name x \<Longrightarrow> returns (representative_info role d x)"
  by (simp add: representative_info_def has_text_name_def returns_bind)

lemma returns_store:
  assumes "list_all has_text_name cs"
  shows "returns (store_cached_senators dd k st cs)"
proof -
  from assms have "list_all (\<lambda>x. returns (senator_info st x)) cs"
    by (simp add: list_all_iff returns_senator_info)
  then show ?thesis
    by (simp add: store_cached_senators_def returns_bind returns_map)
qed

lemma returns_district_senators:
  assumes "names_are_text c"
  shows "returns (district_senators c dd st d)"
  using cached_senators_text [OF assms]
  by (simp add: district_senators_def returns_store split: option.splits)

lemma returns_state_bucket:
  assumes "names_are_text c"
  shows "returns (state_bucket c dd st)"
  using cached_senators_text [OF assms]
  by (simp add: state_bucket_def returns_bind returns_store split: option.splits)

lemma returns_at_large:
  assumes "names_are_text c"
  shows "returns (add_at_large_district c dd st d)"
  using cached_representative_text [OF assms]
  by (simp add: add_at_large_district_def at_large_representatives_def returns_bind
      returns_representative_info split: option.splits)

lemma returns_state_division:
  assumes "names_are_text c" and "is_state_division ocd_id"
  shows "returns (state_division c ids ocd_id dd)"
proof -
  from assms(2) have "contains ''state:'' ocd_id" by (simp add: is_state_division_def)
  then have "returns (py_index (py_split ''state:'' ocd_id) (Suc 0))"
    by (rule py_split_second) simp
  then show ?thesis
    by (simp add: state_division_def returns_bind returns_state_bucket [OF assms(1)]
        returns_at_large [OF assms(1)])
qed

lemma returns_territory_division:
  assumes "names_are_text c" and "contains ''district:'' ocd_id"
  shows "returns (territory_division c ocd_id dd)"
proof -
  have "returns (py_index (py_split ''district:'' ocd_id) (Suc 0))"
    using assms(2) by (rule py_split_second) simp
  then have "returns (territory_code ocd_id)"
    by (simp add: territory_code_def returns_bind py_split_first)
  then show ?thesis
    using cached_representative_text [OF assms(1)]
    by (simp add: territory_division_def returns_bind returns_representative_info
        split: option.splits)
qed

lemma returns_cd_division:
  assumes "names_are_text c" and "contains ''state:'' ocd_id" and "is_cd_division ocd_id"
  shows "returns (cd_division c ocd_id dd)"
proof -
  have "returns (py_index (py_split ''state:'' ocd_id) (Suc 0))"
    using assms(2) by (rule py_split_second) simp
  then have st: "returns (cd_state_abbr ocd_id)"
    by (simp add: cd_state_abbr_def returns_bind py_split_first)
  from assms(3) have "contains (''/'' @ ''cd:'') ocd_id" by (simp add: is_cd_division_def)
  then have "contains ''cd:'' ocd_id" by (rule contains_tail)
  then have "returns (py_index (py_split ''cd:'' ocd_id) (Suc 0))"
    by (rule py_split_second) simp
  then have d: "returns (cd_district_id state_abbr ocd_id)" for state_abbr
    by (simp add: cd_district_id_def returns_bind)
  show ?thesis
    using cached_representative_text [OF assms(1)]
    by (simp add: cd_division_def returns_bind st d returns_representative_info
        returns_district_senators [OF assms(1)] split: option.splits)
qed

lemma returns_process_division:
  assumes "names_are_text c" and "well_formed_id ocd_id"
  shows "returns (process_division c ids ocd_id dd)"
  using assms
  by (simp add: process_division_def well_formed_id_def returns_state_division
      returns_territory_division returns_cd_division)

lemma returns_districts_from_states:
  assumes "names_are_text c"
  shows "returns (districts_from_states c dd)"
  by (simp add: districts_from_states_def derive_at_large_def returns_fold
      returns_at_large [OF assms])

lemma parse_result_returns:
  assumes "names_are_text c" and "list_all well_formed_id (division_ids data)"
  shows "\<exists>r. parse_result data c = Inr r"
proof -
  have "returns (fold_result (process_division c (division_ids data)) (division_ids data) [])"
    using assms by (simp add: returns_fold returns_process_division list_all_iff)
  then have "returns (parse_result data c)"
    by (simp add: parse_result_def returns_bind returns_districts_from_states [OF assms(1)])
  then show ?thesis by (simp add: returns_iff)
qed

section \<open>Properties of the result mappers\<close>

lemma map_of_remove_state_entries:
  "map_of (remove_state_entries dd) k = (if contains ''-'' k then map_of dd k else None)"
  by (induction dd) (auto simp: remove_state_entries_def)

lemma keys_remove_state_entries:
  assumes "k \<in> keys (remove_state_entries dd)"
  shows "CHR ''-'' \<in> set k"
proof -
  from assms have "contains ''-'' k"
    by (auto simp: keys_def remove_state_entries_def)
  then show ?thesis by (simp add: contains_char)
qed

lemma districts_dict_lookup:
  "result_districts (districts_dict dd) = Some (map (\<lambda>(k, e). (k, entry_info e)) dd)"
  "map_of (map (\<lambda>(k, e). (k, entry_info e)) dd) k = map_option entry_info (map_of dd k)"
  "keys (map (\<lambda>(k, e). (k, entry_info e)) dd) = keys dd"
proof -
  show "result_districts (districts_dict dd) = Some (map (\<lambda>(k, e). (k, entry_info e)) dd)"
    by (simp add: districts_dict_def)
  show "map_of (map (\<lambda>(k, e). (k, entry_info e)) dd) k = map_option entry_info (map_of dd k)"
    by (induction dd) auto
  show "keys (map (\<lambda>(k, e). (k, entry_info e)) dd) = keys dd"
    by (induction dd) (auto simp: keys_def)
qed

text \<open>What the generic mapper returns is what its last two steps leave.\<close>

lemma parse_result_form:
  assumes "parse_result data c = Inr r"
  shows "\<exists>dd. r = districts_dict
                 (remove_state_entries (apply_test_data (division_ids data) dd))"
  using assms by (auto simp: parse_result_def bind_result_Inr)

text \<open>
  Every key of the districts that the generic mapper returns holds a \<^verbatim>\<open>-\<close>: the state
  buckets are removed.
\<close>

lemma parse_result_keys:
  assumes "parse_result data c = Inr r"
  shows "\<exists>ds. result_districts r = Some ds \<and> (\<forall>k\<in>keys ds. CHR ''-'' \<in> set k)"
proof -
  from parse_result_form [OF assms] obtain dd where
    r: "r = districts_dict (remove_state_entries (apply_test_data (division_ids data) dd))"
    by blast
  show ?thesis
    unfolding r by (auto simp: districts_dict_lookup dest: keys_remove_state_entries)
qed

lemma ca_state_id:
  "is_state_division ''ocd-division/country:us/state:ca''"
  "py_index (py_split ''state:'' ''ocd-division/country:us/state:ca'') (Suc 0) = Inr ''ca''"
  "upper ''ca'' = ''CA''"
  by (simp_all add: is_state_division_def py_split.simps py_index_def upper_def upper_char_def)

text \<open>
  C2 fails on the older mapper, which returns its dictionary unfiltered: for a response
  with California alone and no cached legislators, the state bucket \<^verbatim>\<open>CA\<close> is a key of
  the districts returned.
\<close>

theorem parse_result_special_state_bucket:
  "parse_result_special no_cache ca_state_response
     = Inr (districts_dict
             [(''CA'', \<lparr>senators = placeholder_senators ''CA'', representatives = []\<rparr>)])
   \<and> CHR ''-'' \<notin> set ''CA''"
proof -
  have ids: "division_ids ca_state_response = [''ocd-division/country:us/state:ca'']"
    by (simp add: division_ids_def division_items_def ca_state_response_def)
  have bucket: "state_bucket no_cache [] ''CA''
      = Inr [(''CA'', \<lparr>senators = placeholder_senators ''CA'', representatives = []\<rparr>)]"
    by (simp add: state_bucket_def cached_senators_def no_cache_def ensure_entry_def
        new_entry_def bind_result_def entry_senators_def set_senators_def)
  have step: "process_division_special no_cache ''ocd-division/country:us/state:ca'' []
      = Inr [(''CA'', \<lparr>senators = placeholder_senators ''CA'', representatives = []\<rparr>)]"
    by (simp add: process_division_special_def ca_state_id state_division_special_def
        bind_result_def bucket)
  have force: "force_ca12_senators ''ocd-division/country:us/state:ca'' dd = dd" for dd
    by (simp add: force_ca12_senators_def)
  show ?thesis
    by (simp add: parse_result_special_def ids step bind_result_def force)
qed

text \<open>The test data of the generic mapper for an identifier of the District of Columbia.\<close>

lemma apply_test_data_dc:
  assumes "list_ex (contains ''/district:dc'') ids"
  shows "map_of (apply_test_data ids dd) ''DC-AL'' = Some test_data_DC_AL"
proof -
  from assms have
    "list_ex (\<lambda>ocd_id. list_ex (\<lambda>ocd_path. contains ocd_path ocd_id) test_paths) ids"
    by (auto simp: list_ex_iff test_paths_def)
  with assms show ?thesis
    by (simp add: apply_test_data_def Let_def map_of_dict_set)
qed

text \<open>
  C7: for every response with an identifier that holds \<^verbatim>\<open>country:us/district:dc\<close>, the
  generic mapper returns when the response and the cache are well formed (it raises
  nothing), and whenever it returns, the districts it returns have the key \<^verbatim>\<open>DC-AL\<close>,
  whose entry has no senators and exactly one representative, with the role of the
  non-voting delegate.
\<close>

theorem dc_delegate:
  assumes "\<exists>ocd_id\<in>set (division_ids data). contains ''country:us/district:dc'' ocd_id"
  shows "(names_are_text c \<and> list_all well_formed_id (division_ids data)
          \<longrightarrow> (\<exists>r. parse_result data c = Inr r))
       \<and> (\<forall>r. parse_result data c = Inr r \<longrightarrow>
            (\<exists>ds rep. result_districts r = Some ds
               \<and> map_of ds ''DC-AL''
                   = Some \<lparr>info_senators = Some [], info_representatives = Some [rep],
                           info_others = []\<rparr>
               \<and> map_of rep ''role'' = Some (SStr ''Delegate (Non-Voting)'')))"
proof (intro conjI impI allI)
  assume "names_are_text c \<and> list_all well_formed_id (division_ids data)"
  then show "\<exists>r. parse_result data c = Inr r"
    by (simp add: parse_result_returns)
next
  fix r
  assume ret: "parse_result data c = Inr r"
  from parse_result_form [OF ret] obtain dd where
    r: "r = districts_dict (remove_state_entries (apply_test_data (division_ids data) dd))"
    by blast
  from assms obtain ocd_id where
    o: "ocd_id \<in> set (division_ids data)" "contains (''country:us'' @ ''/district:dc'') ocd_id"
    by auto
  from o(2) have "contains ''/district:dc'' ocd_id" by (rule contains_tail)
  with o(1) have "list_ex (contains ''/district:dc'') (division_ids data)"
    by (auto simp: list_ex_iff)
  then have dc: "map_of (apply_test_data (division_ids data) dd) ''DC-AL''
      = Some test_data_DC_AL"
    by (rule apply_test_data_dc)
  have "map_of (remove_state_entries (apply_test_data (division_ids data) dd)) ''DC-AL''
      = Some test_data_DC_AL"
    by (simp add: map_of_remove_state_entries dc)
  then have "map_of (map (\<lambda>(k, e). (k, entry_info e))
      (remove_state_entries (apply_test_data (division_ids data) dd))) ''DC-AL''
      = Some (entry_info test_data_DC_AL)"
    by (simp add: districts_dict_lookup(2))
  then show "\<exists>ds rep. result_districts r = Some ds
      \<and> map_of ds ''DC-AL''
          = Some \<lparr>info_senators = Some [], info_representatives = Some [rep],
                  info_others = []\<rparr>
      \<and> map_of rep ''role'' = Some (SStr ''Delegate (Non-Voting)'')"
    unfolding r by (simp add: districts_dict_lookup(1) entry_info_def test_data_DC_AL_def)
qed

lemma dc_response_well_formed:
  "division_ids dc_response
     = [''ocd-division/country:us'', ''ocd-division/country:us/district:dc'']"
  "list_all well_formed_id (division_ids dc_response)"
  "names_are_text no_cache"
proof -
  show ids: "division_ids dc_response
      = [''ocd-division/country:us'', ''ocd-division/country:us/district:dc'']"
    by (simp add: division_ids_def division_items_def dc_response_def)
  have "well_formed_id ''ocd-division/country:us''"
    by (simp add: well_formed_id_def is_territory_division_def is_cd_division_def
        lower_def lower_char_def)
  moreover have "well_formed_id ''ocd-division/country:us/district:dc''"
    by (simp add: well_formed_id_def is_cd_division_def)
  ultimately show "list_all well_formed_id (division_ids dc_response)"
    by (simp add: ids)
  show "names_are_text no_cache"
    by (simp add: names_are_text_def no_cache_def list_or_empty_def)
qed

theorem dc_delegate_witness:
  "contains ''country:us/district:dc'' ''ocd-division/country:us/district:dc''
   \<and> names_are_text no_cache \<and> list_all well_formed_id (division_ids dc_response)
   \<and> (\<exists>r ds rep. parse_result dc_response no_cache = Inr r
         \<and> result_districts r = Some ds
         \<and> map_of ds ''DC-AL''
             = Some \<lparr>info_senators = Some [], info_representatives = Some [rep],
                     info_others = []\<rparr>
         \<and> map_of rep ''role'' = Some (SStr ''Delegate (Non-Voting)''))"
proof -
  have c: "contains ''country:us/district:dc'' ''ocd-division/country:us/district:dc''"
    by simp
  with dc_response_well_formed(1) have
    "\<exists>ocd_id\<in>set (division_ids dc_response). contains ''country:us/district:dc'' ocd_id"
    by simp
  from dc_delegate [OF this, of no_cache] dc_response_well_formed(2,3) c
  show ?thesis by blast
qed



section \<open>Properties of the cache builder\<close>















end
